theory Spec2Isabelle
  imports Complex_Main "HOL-Library.Sublist"
begin

section \<open>Python strings\<close>

text \<open>
  SQL texts, tool names and error messages are Python \<open>str\<close> values. They are modelled as
  \<open>string\<close>, a list of characters with the code points 0 to 255, and the string methods
  behave on them as Python's do on these code points:
  \<^item> \<open>str.lower\<close> maps \<open>A\<close>-\<open>Z\<close> (65-90) and the letters 192-222 other than 215 to the
    code point 32 higher;
  \<^item> \<open>str.upper\<close> maps \<open>a\<close>-\<open>z\<close> (97-122) and the letters 224-254 other than 247 to the
    code point 32 lower, and the sharp s (223) to the two letters \<open>SS\<close>; the upper-case forms
    of 181 and 255 lie beyond 255 and are no ASCII letters, so these two are left as they are;
  \<^item> \<open>str.isspace\<close>, and with it \<open>str.strip\<close> and the class \<open>\s\<close> of \<open>re\<close>, holds for the code
    points 9-13, 28-32, 133 and 160;
  \<^item> the class \<open>\d\<close> of \<open>re\<close> holds for the digits 48-57.
\<close>

definition py_lower_char :: "char \<Rightarrow> char" where
  "py_lower_char c =
     (let n = (of_char c :: nat)
      in if (65 \<le> n \<and> n \<le> 90) \<or> (192 \<le> n \<and> n \<le> 222 \<and> n \<noteq> 215)
         then char_of (n + 32) else c)"

definition py_upper_char :: "char \<Rightarrow> string" where
  "py_upper_char c =
     (let n = (of_char c :: nat)
      in if n = 223 then ''SS''
         else if (97 \<le> n \<and> n \<le> 122) \<or> (224 \<le> n \<and> n \<le> 254 \<and> n \<noteq> 247)
         then [char_of (n - 32)] else [c])"

definition py_lower :: "string \<Rightarrow> string" where
  "py_lower s = map py_lower_char s"

definition py_upper :: "string \<Rightarrow> string" where
  "py_upper s = concat (map py_upper_char s)"

definition py_isspace :: "char \<Rightarrow> bool" where
  "py_isspace c =
     (let n = (of_char c :: nat)
      in (9 \<le> n \<and> n \<le> 13) \<or> (28 \<le> n \<and> n \<le> 32) \<or> n = 133 \<or> n = 160)"

definition py_isdigit :: "char \<Rightarrow> bool" where
  "py_isdigit c = (let n = (of_char c :: nat) in 48 \<le> n \<and> n \<le> 57)"

definition py_strip :: "string \<Rightarrow> string" where
  "py_strip s = rev (dropWhile py_isspace (rev (dropWhile py_isspace s)))"

text \<open>\<open>s.startswith(p)\<close> is \<open>prefix p s\<close>; \<open>sub in s\<close> is the substring test below.\<close>

fun py_in :: "string \<Rightarrow> string \<Rightarrow> bool" where
  "py_in sub [] = (sub = [])"
| "py_in sub (c # cs) = (prefix sub (c # cs) \<or> py_in sub cs)"

text \<open>\<open>xs[-n:]\<close> for a positive \<open>n\<close>: the last \<open>n\<close> elements, the whole list when it is shorter.\<close>

definition py_last :: "nat \<Rightarrow> 'a list \<Rightarrow> 'a list" where
  "py_last n xs = drop (length xs - n) xs"

text \<open>\<open>int(ds)\<close> on a run of decimal digits, and \<open>str(n)\<close> on a natural number.\<close>

definition py_int :: "string \<Rightarrow> nat" where
  "py_int ds = foldl (\<lambda>a c. 10 * a + (of_char c - 48)) 0 ds"

fun py_str_nat :: "nat \<Rightarrow> string" where
  "py_str_nat n =
     (if n < 10 then [char_of (48 + n)] else py_str_nat (n div 10) @ [char_of (48 + n mod 10)])"

declare py_str_nat.simps [simp del]

section \<open>The MindsDB query tool (\<open>mindsdb_tool.py\<close>)\<close>

text \<open>
  A tool result is the dictionary the tools return: \<open>{"success": False, "error": ...}\<close> or
  \<open>{"success": True, "data": ..., "columns": ..., "row_count": ...}\<close>, the latter with a
  \<open>"note"\<close> once the analyzers have truncated it.
\<close>

datatype 'row tool_result =
    Failure (res_error: string)
  | Success (res_data: "'row list") (res_columns: "string list") (res_row_count: nat)
      (res_note: "string option")

text \<open>The reasons for which \<open>MindsDBTool.query\<close> refuses a statement, and their messages.\<close>

datatype reject =
    WriteNotAllowed
  | MissingLimitOnLargeColumn
  | LimitTooHigh nat
  | WildcardProjection

fun error_text :: "reject \<Rightarrow> string" where
  "error_text WriteNotAllowed = ''Write operations not allowed. Use allow_write=True to enable.''"
| "error_text MissingLimitOnLargeColumn =
     ''Query must include LIMIT clause when selecting raw_data or error_details (max LIMIT 5 recommended). These columns contain large JSON. With 1M context window enabled, small queries are allowed.''"
| "error_text (LimitTooHigh v) =
     ''LIMIT '' @ py_str_nat v @ '' too high for raw_data queries. Maximum LIMIT 10 recommended to avoid context overflow even with 1M window.''"
| "error_text WildcardProjection =
     ''SELECT * not allowed. Always specify explicit column names to control response size.''"

definition write_keywords :: "string list" where
  "write_keywords = [''INSERT'', ''UPDATE'', ''DELETE'', ''ALTER'', ''CREATE'', ''DROP'', ''TRUNCATE'']"

definition is_write_operation :: "string \<Rightarrow> bool" where
  "is_write_operation sql =
     (let sql_upper = py_upper (py_strip sql)
      in list_ex (\<lambda>keyword. prefix keyword sql_upper) write_keywords)"

text \<open>
  \<open>re.search(r'limit\s+(\d+)', sql_lower)\<close>: the leftmost position where \<open>limit\<close>, at least one
  whitespace character and at least one digit follow each other; the group is the whole run
  of digits, read as a number.
\<close>

definition limit_match_here :: "string \<Rightarrow> nat option" where
  "limit_match_here s =
     (if prefix ''limit'' s then
        (let r = drop 5 s;
             ws = takeWhile py_isspace r;
             ds = takeWhile py_isdigit (dropWhile py_isspace r)
         in if ws \<noteq> [] \<and> ds \<noteq> [] then Some (py_int ds) else None)
      else None)"

fun limit_match :: "string \<Rightarrow> nat option" where
  "limit_match [] = None"
| "limit_match (c # cs) =
     (case limit_match_here (c # cs) of Some v \<Rightarrow> Some v | None \<Rightarrow> limit_match cs)"

definition references_large_column :: "string \<Rightarrow> bool" where
  "references_large_column sql_lower =
     (py_in ''raw_data'' sql_lower \<or> py_in ''error_details'' sql_lower)"

text \<open>
  The checks of \<open>MindsDBTool.query\<close> in the order of the source: the write check, the two
  checks on statements that mention a large column, the wildcard check. \<open>None\<close> means that
  the statement goes on to the HTTP call.
\<close>

definition query_guard :: "string \<Rightarrow> bool \<Rightarrow> reject option" where
  "query_guard sql allow_write =
     (if is_write_operation sql \<and> \<not> allow_write then Some WriteNotAllowed
      else
        (let sql_lower = py_lower sql;
             large =
               (if references_large_column sql_lower then
                  (if \<not> py_in ''limit'' sql_lower then Some MissingLimitOnLargeColumn
                   else
                     (case limit_match sql_lower of
                        Some limit_value \<Rightarrow>
                          if limit_value > 10 then Some (LimitTooHigh limit_value) else None
                      | None \<Rightarrow> None))
                else None)
         in case large of
              Some r \<Rightarrow> Some r
            | None \<Rightarrow> if py_in ''select *'' sql_lower then Some WildcardProjection else None))"

text \<open>
  \<open>MindsDBTool.query\<close>. The executor stands for the \<open>try\<close> block that posts the statement to
  the MindsDB HTTP API and turns the response, a timeout or any other exception into a tool
  result. The second component lists the statements that were sent to the executor.
\<close>

definition query ::
  "(string \<Rightarrow> 'row tool_result) \<Rightarrow> string \<Rightarrow> bool \<Rightarrow> 'row tool_result \<times> string list" where
  "query executor sql allow_write =
     (case query_guard sql allow_write of
        Some r \<Rightarrow> (Failure (error_text r), [])
      | None \<Rightarrow> (executor sql, [sql]))"

text \<open>The statement of \<open>MindsDBTool.count_records\<close>, which goes through \<open>query\<close>.\<close>

definition count_records_sql :: string where
  "count_records_sql =
     ''SELECT COUNT(*) as total FROM datasource_postgres.service19_onboarding_data;''"

text \<open>
  \<open>execute_mindsdb_tool\<close>, for the two operations that take the caller's SQL
  (\<open>custom_query\<close> and \<open>alter_table\<close>); the other operations build their own statements.
  \<open>not custom_sql\<close> holds for \<open>None\<close> and for the empty string.
\<close>

datatype sql_operation = custom_query | alter_table

definition execute_mindsdb_tool ::
  "(string \<Rightarrow> 'row tool_result) \<Rightarrow> sql_operation \<Rightarrow> string option \<Rightarrow> bool
     \<Rightarrow> 'row tool_result \<times> string list" where
  "execute_mindsdb_tool executor operation custom_sql allow_write =
     (case operation of
        custom_query \<Rightarrow>
          (case custom_sql of
             None \<Rightarrow> (Failure ''custom_sql required for custom_query operation'', [])
           | Some sql \<Rightarrow>
               if sql = [] then (Failure ''custom_sql required for custom_query operation'', [])
               else query executor sql allow_write)
      | alter_table \<Rightarrow>
          (case custom_sql of
             None \<Rightarrow> (Failure ''custom_sql required for alter_table operation'', [])
           | Some sql \<Rightarrow>
               if sql = [] then (Failure ''custom_sql required for alter_table operation'', [])
               else query executor sql True))"

section \<open>The analyzers' tool (\<open>city_insights_analyzer.py\<close>, \<open>city_insights_analyzer_gemini.py\<close>)\<close>

definition note_first_five :: "nat \<Rightarrow> string" where
  "note_first_five n =
     ''Result truncated to first 5 rows (of '' @ py_str_nat n @ '' total) to save context''"

definition note_two_of :: "nat \<Rightarrow> string" where
  "note_two_of n =
     ''Result heavily truncated (showing 2 of '' @ py_str_nat n @ '' rows) due to size''"

text \<open>
  The truncation block of \<open>_execute_tool\<close>. \<open>py_str\<close> is Python's \<open>str\<close> on the result
  dictionary; the rows are whatever the database driver returns, so the serializer is a
  parameter. (The Gemini analyzer also turns the UUID values of the kept rows into strings.)
\<close>

definition shape_result ::
  "('row tool_result \<Rightarrow> string) \<Rightarrow> 'row tool_result \<Rightarrow> 'row tool_result" where
  "shape_result py_str result =
     (case result of
        Failure e \<Rightarrow> result
      | Success d cols n nt \<Rightarrow>
          if n > 0 then
            (let truncated_data = take 5 d;
                 result1 = Success truncated_data cols n (Some (note_first_five n))
             in if length (py_str result1) > 3000
                then Success (take 2 truncated_data) cols n (Some (note_two_of n))
                else result1)
          else result)"

text \<open>
  \<open>_execute_tool\<close>: the tool input is the dictionary of the model's arguments, the executor
  is \<open>PostgresDirectTool.query\<close>. The second component lists the statements sent to it.
\<close>

definition execute_tool ::
  "('row tool_result \<Rightarrow> string) \<Rightarrow> (string \<Rightarrow> 'row tool_result) \<Rightarrow> string
     \<Rightarrow> (string \<times> string) list \<Rightarrow> 'row tool_result \<times> string list" where
  "execute_tool py_str postgres_query tool_name tool_input =
     (if tool_name = ''query_database'' then
        (let sql = (case map_of tool_input ''sql'' of Some s \<Rightarrow> s | None \<Rightarrow> [])
         in if \<not> py_in ''limit'' (py_lower sql)
            then (Failure ''LIMIT clause required in all queries'', [])
            else (shape_result py_str (postgres_query sql), [sql]))
      else (Failure (''Unknown tool: '' @ tool_name), []))"

section \<open>The direct PostgreSQL tool (\<open>postgres_direct_tool.py\<close>)\<close>

text \<open>The \<open>custom_query\<close> branch of \<open>execute_postgres_direct_tool\<close>.\<close>

definition postgres_direct_custom_query ::
  "(string \<Rightarrow> 'row tool_result) \<Rightarrow> string option \<Rightarrow> 'row tool_result \<times> string list" where
  "postgres_direct_custom_query postgres_query custom_sql =
     (case custom_sql of
        None \<Rightarrow> (Failure ''custom_sql required for custom_query operation'', [])
      | Some sql \<Rightarrow>
          if sql = [] then (Failure ''custom_sql required for custom_query operation'', [])
          else if \<not> py_in ''limit'' (py_lower sql)
          then (Failure ''LIMIT clause required for direct PostgreSQL queries to avoid context overflow'', [])
          else (postgres_query sql, [sql]))"

section \<open>The MindsDB agent (\<open>mindsdb_agent.py\<close>)\<close>

subsection \<open>Result size limit of the \<open>query_postgres_direct\<close> branch\<close>

text \<open>
  What \<open>MindsDBAgent.run\<close> serializes into the tool message: the result dictionary itself or
  a summary dictionary. \<open>result.get\<close> yields \<open>None\<close> for the keys a failure lacks.
\<close>

datatype 'row payload =
    Whole "'row tool_result"
  | Summary (sum_success: bool) (sum_row_count: "nat option") (sum_columns: "string list option")
      (data_sample: "'row list") (sum_note: string)

definition get_success :: "'row tool_result \<Rightarrow> bool" where
  "get_success r = (case r of Failure e \<Rightarrow> False | Success d c n nt \<Rightarrow> True)"

definition get_row_count :: "'row tool_result \<Rightarrow> nat option" where
  "get_row_count r = (case r of Failure e \<Rightarrow> None | Success d c n nt \<Rightarrow> Some n)"

definition get_columns :: "'row tool_result \<Rightarrow> string list option" where
  "get_columns r = (case r of Failure e \<Rightarrow> None | Success d c n nt \<Rightarrow> Some c)"

definition get_data :: "'row tool_result \<Rightarrow> 'row list" where
  "get_data r = (case r of Failure e \<Rightarrow> [] | Success d c n nt \<Rightarrow> d)"

definition note_showed_three :: "nat \<Rightarrow> string" where
  "note_showed_three n =
     ''Result truncated (showed 3/'' @ py_str_nat n
       @ '' rows). Use export_query_results tool to save full dataset.''"

text \<open>
  The two size checks of the branch, in the order of the source. The second one starts again
  from \<open>str(result)\<close>, so the first summary is never used.
\<close>

definition direct_result_payload ::
  "('row payload \<Rightarrow> string) \<Rightarrow> 'row tool_result \<Rightarrow> 'row payload" where
  "direct_result_payload py_str result =
     (let result_str = Whole result;
          result_str =
            (if length (py_str result_str) > 10000
             then Summary (get_success result) (get_row_count result) (get_columns result)
                    (take 5 (get_data result))
                    ''Result truncated. Use LIMIT in query to control size.''
             else result_str);
          result_str = Whole result;
          result_str =
            (if length (py_str result_str) > 10000
             then Summary (get_success result) (get_row_count result) (get_columns result)
                    (take 3 (get_data result))
                    (note_showed_three (case get_row_count result of Some n \<Rightarrow> n | None \<Rightarrow> 0))
             else result_str)
      in result_str)"

subsection \<open>Retry of the completion call\<close>

text \<open>
  The \<open>for retry in range(max_retries)\<close> loop around \<open>completion\<close>. The completion call is a
  function of the attempt number that returns a response (\<open>Inr\<close>) or raises an exception with
  a message (\<open>Inl\<close>). The loop returns what \<open>run\<close> continues with (the response, or the
  exception that leaves \<open>run\<close>), the delays passed to \<open>time.sleep\<close> in order, and the number of
  completion calls. A loop that ends without a \<open>break\<close> leaves \<open>response\<close> unbound.
\<close>

definition is_rate_limit :: "string \<Rightarrow> bool" where
  "is_rate_limit e = (py_in ''rate'' (py_lower e) \<or> py_in ''limit'' (py_lower e))"

fun retry_loop ::
  "(nat \<Rightarrow> string + 'resp) \<Rightarrow> nat \<Rightarrow> nat list \<Rightarrow> nat list \<Rightarrow> nat
     \<Rightarrow> (string + 'resp) \<times> nat list \<times> nat" where
  "retry_loop completion max_retries [] slept calls =
     (Inl ''UnboundLocalError'', slept, calls)"
| "retry_loop completion max_retries (retry # rest) slept calls =
     (case completion retry of
        Inr response \<Rightarrow> (Inr response, slept, calls + 1)
      | Inl e \<Rightarrow>
          if is_rate_limit e then
            (if retry < max_retries - 1
             then retry_loop completion max_retries rest (slept @ [2 ^ retry * 3]) (calls + 1)
             else (Inl e, slept, calls + 1))
          else (Inl e, slept, calls + 1))"

definition call_with_retry :: "(nat \<Rightarrow> string + 'resp) \<Rightarrow> (string + 'resp) \<times> nat list \<times> nat" where
  "call_with_retry completion =
     (let max_retries = 5 in retry_loop completion max_retries [0..<max_retries] [] 0)"

subsection \<open>Pruning of the conversation\<close>

text \<open>
  The messages of \<open>MindsDBAgent.run\<close>: plain messages with a role and a text, assistant
  messages with tool calls, and one message of role \<open>tool\<close> for each tool call.
\<close>

datatype tool_call = ToolCall (call_id: string) (call_name: string) (call_arguments: string)

datatype chat_message =
    ChatMessage string string
  | AssistantToolCalls string "tool_call list"
  | ToolMessage string string string

fun chat_role :: "chat_message \<Rightarrow> string" where
  "chat_role (ChatMessage r c) = r"
| "chat_role (AssistantToolCalls c tcs) = ''assistant''"
| "chat_role (ToolMessage i n c) = ''tool''"

definition prune_messages :: "chat_message list \<Rightarrow> chat_message list" where
  "prune_messages messages =
     (if length messages > 12 then
        (let remaining = py_last 10 messages;
             remaining =
               (if remaining \<noteq> [] \<and> chat_role (hd remaining) = ''user''
                then py_last 9 messages else remaining)
         in hd messages # remaining)
      else messages)"

text \<open>
  What the pruning is meant to keep (\<open>Keep pairs together\<close>): an assistant message with
  tool calls is followed at once by the tool messages that answer its calls, in order, and
  every tool message belongs to such a group.
\<close>

fun tool_message_id :: "chat_message \<Rightarrow> string option" where
  "tool_message_id (ToolMessage i n c) = Some i"
| "tool_message_id (ChatMessage r c) = None"
| "tool_message_id (AssistantToolCalls c tcs) = None"

definition calls_answered_by :: "tool_call list \<Rightarrow> chat_message list \<Rightarrow> bool" where
  "calls_answered_by tcs rest =
     (map (\<lambda>tc. Some (call_id tc)) tcs = map tool_message_id (take (length tcs) rest))"

function pairs_together :: "chat_message list \<Rightarrow> bool" where
  "pairs_together [] = True"
| "pairs_together (ChatMessage r c # rest) = pairs_together rest"
| "pairs_together (ToolMessage i n c # rest) = False"
| "pairs_together (AssistantToolCalls c tcs # rest) =
     (calls_answered_by tcs rest \<and> pairs_together (drop (length tcs) rest))"
  by pat_completeness auto
termination
  by (relation "measure length") auto

section \<open>The analysis loop (\<open>CityInsightsAnalyzer.analyze_city\<close>)\<close>

subsection \<open>Messages and completions\<close>

datatype content_block =
    TextBlock string
  | ToolUseBlock string string "(string \<times> string) list"

datatype tool_result_block = ToolResultBlock (tool_use_id: string) (result_content: string)

datatype message_content =
    Text string
  | Blocks "content_block list"
  | ToolResults "tool_result_block list"

datatype message = Message (msg_role: string) (msg_content: message_content)

text \<open>
  What \<open>client.messages.create\<close> does: it returns a response with a stop reason and content
  blocks, raises \<open>RateLimitError\<close>, or raises another exception with a message.
\<close>

datatype completion =
    Response string "content_block list"
  | RateLimitError string
  | APIError string

fun text_blocks :: "content_block list \<Rightarrow> string list" where
  "text_blocks [] = []"
| "text_blocks (TextBlock t # bs) = t # text_blocks bs"
| "text_blocks (ToolUseBlock i n inp # bs) = text_blocks bs"

fun tool_use_names :: "content_block list \<Rightarrow> string list" where
  "tool_use_names [] = []"
| "tool_use_names (TextBlock t # bs) = tool_use_names bs"
| "tool_use_names (ToolUseBlock i n inp # bs) = n # tool_use_names bs"

subsection \<open>Parsing the final response\<close>

fun py_join :: "string \<Rightarrow> string list \<Rightarrow> string" where
  "py_join sep [] = []"
| "py_join sep [x] = x"
| "py_join sep (x # y # ys) = x @ sep @ py_join sep (y # ys)"

text \<open>\<open>s.find(sub)\<close>, \<open>s.find(sub, start)\<close> and \<open>s.rfind(sub)\<close>; \<open>None\<close> is Python's \<open>-1\<close>.\<close>

fun py_find :: "string \<Rightarrow> string \<Rightarrow> nat option" where
  "py_find sub [] = (if sub = [] then Some 0 else None)"
| "py_find sub (c # cs) =
     (if prefix sub (c # cs) then Some 0 else map_option Suc (py_find sub cs))"

definition py_find_from :: "string \<Rightarrow> string \<Rightarrow> nat \<Rightarrow> nat option" where
  "py_find_from sub s start = map_option (\<lambda>i. i + start) (py_find sub (drop start s))"

definition py_rfind :: "string \<Rightarrow> string \<Rightarrow> nat option" where
  "py_rfind sub s =
     map_option (\<lambda>i. length s - i - length sub) (py_find (rev sub) (rev s))"

definition json_fence :: string where
  "json_fence = [CHR 0x60, CHR 0x60, CHR 0x60] @ ''json''"

definition fence :: string where
  "fence = [CHR 0x60, CHR 0x60, CHR 0x60]"

text \<open>
  The text handed to \<open>json.loads\<close>: the inside of a fenced \<open>json\<close> block (up to the next fence,
  or up to the last character but one when \<open>find\<close> yields \<open>-1\<close>), else the text from the first
  \<open>{\<close> to the last \<open>}\<close>, else the whole response.
\<close>

definition json_candidate :: "string \<Rightarrow> string" where
  "json_candidate final_response =
     (if py_in json_fence final_response then
        (let json_start = (case py_find json_fence final_response of Some i \<Rightarrow> i | None \<Rightarrow> 0) + 7
         in case py_find_from fence final_response json_start of
              Some json_end \<Rightarrow>
                py_strip (take (json_end - json_start) (drop json_start final_response))
            | None \<Rightarrow> py_strip (drop json_start (butlast final_response)))
      else if py_in ''{'' final_response \<and> py_in ''}'' final_response then
        (let json_start = (case py_find ''{'' final_response of Some i \<Rightarrow> i | None \<Rightarrow> 0);
             json_end = (case py_rfind ''}'' final_response of Some i \<Rightarrow> i | None \<Rightarrow> 0) + 1
         in take (json_end - json_start) (drop json_start final_response))
      else final_response)"

text \<open>
  The insight of the result: the value \<open>json.loads\<close> returned, or the fallback dictionary of
  the \<open>except json.JSONDecodeError\<close> branch. The decoder is a parameter; \<open>None\<close> is the
  \<open>JSONDecodeError\<close>.
\<close>

datatype 'j insight =
    Decoded 'j
  | Fallback (insight_summary: string) (detailed_analysis: string)
      (data_sources_used: "string list") (confidence_score: real) (recommendations: "string list")

definition parse_response :: "(string \<Rightarrow> 'j option) \<Rightarrow> string \<Rightarrow> 'j insight" where
  "parse_response json_loads final_response =
     (case json_loads (json_candidate final_response) of
        Some insight_data \<Rightarrow> Decoded insight_data
      | None \<Rightarrow> Fallback (take 200 final_response) final_response [''unknown''] (1 / 2) [])"

subsection \<open>The loop\<close>

text \<open>
  The state of one \<open>analyze_city\<close> call: the conversation and the iteration counter of the
  source, and a record of what the call did: the number of completion calls, the tool names
  passed to \<open>_execute_tool\<close>, the statements sent to the database and the delays slept.
\<close>

record run_state =
  st_messages :: "message list"
  st_iteration :: nat
  st_calls :: nat
  st_dispatched :: "string list"
  st_executed :: "string list"
  st_slept :: "nat list"

datatype 'j run_outcome =
    Analysis "'j insight"
  | MaxIterationsReached
  | Raised string

datatype 'j step =
    Continue run_state
  | Return "'j run_outcome" run_state

text \<open>The \<open>for tool_use in tool_uses\<close> loop: results, dispatched tool names, executed SQL.\<close>

fun execute_tools ::
  "('row tool_result \<Rightarrow> string) \<Rightarrow> (string \<Rightarrow> 'row tool_result) \<Rightarrow> content_block list
     \<Rightarrow> tool_result_block list \<times> string list \<times> string list" where
  "execute_tools py_str postgres_query [] = ([], [], [])"
| "execute_tools py_str postgres_query (TextBlock t # bs) =
     execute_tools py_str postgres_query bs"
| "execute_tools py_str postgres_query (ToolUseBlock i name inp # bs) =
     (let (result, ex) = execute_tool py_str postgres_query name inp;
          (rs, ds, exs) = execute_tools py_str postgres_query bs
      in (ToolResultBlock i (py_str result) # rs, name # ds, ex @ exs))"

text \<open>
  One pass through the body of \<open>while iteration < max_iterations\<close>. The completion call is a
  function of the number of earlier calls and of the messages sent.
\<close>

definition turn ::
  "(nat \<Rightarrow> message list \<Rightarrow> completion) \<Rightarrow> ('row tool_result \<Rightarrow> string)
     \<Rightarrow> (string \<Rightarrow> 'row tool_result) \<Rightarrow> (string \<Rightarrow> 'j option) \<Rightarrow> run_state \<Rightarrow> 'j step" where
  "turn create py_str postgres_query json_loads st0 =
     (let st1 = st0\<lparr>st_iteration := st_iteration st0 + 1\<rparr>;
          st2 = (if length (st_messages st1) > 6
                 then st1\<lparr>st_messages := py_last 6 (st_messages st1)\<rparr> else st1);
          r = create (st_calls st2) (st_messages st2);
          st = st2\<lparr>st_calls := st_calls st2 + 1\<rparr>
      in case r of
           RateLimitError e \<Rightarrow> Continue (st\<lparr>st_slept := st_slept st @ [5]\<rparr>)
         | APIError e \<Rightarrow>
             if py_in ''too long'' (py_lower e) \<or> py_in ''204675'' e
             then Continue (st\<lparr>st_messages := py_last 2 (st_messages st)\<rparr>)
             else Return (Raised e) st
         | Response stop_reason content \<Rightarrow>
             if stop_reason = ''tool_use'' then
               (let (tool_results, names, sqls) = execute_tools py_str postgres_query content
                in Continue (st\<lparr>st_messages := st_messages st
                                  @ [Message ''assistant'' (Blocks content),
                                     Message ''user'' (ToolResults tool_results)],
                               st_dispatched := st_dispatched st @ names,
                               st_executed := st_executed st @ sqls\<rparr>))
             else Return (Analysis (parse_response json_loads
                                      (py_join [CHR 0x0A] (text_blocks content)))) st)"

function agent_loop ::
  "nat \<Rightarrow> (nat \<Rightarrow> message list \<Rightarrow> completion) \<Rightarrow> ('row tool_result \<Rightarrow> string)
     \<Rightarrow> (string \<Rightarrow> 'row tool_result) \<Rightarrow> (string \<Rightarrow> 'j option) \<Rightarrow> run_state
     \<Rightarrow> 'j run_outcome \<times> run_state" where
  "agent_loop max_iterations create py_str postgres_query json_loads st =
     (if st_iteration st < max_iterations then
        (case turn create py_str postgres_query json_loads st of
           Continue st' \<Rightarrow> agent_loop max_iterations create py_str postgres_query json_loads st'
         | Return out st' \<Rightarrow> (out, st'))
      else (MaxIterationsReached, st))"
  by pat_completeness auto
termination
  apply (relation "measure (\<lambda>(max_iterations, create, py_str, postgres_query, json_loads, st).
                     max_iterations - st_iteration st)")
   apply simp
  apply (auto simp: turn_def Let_def split: completion.splits if_splits prod.splits)
  done

declare agent_loop.simps [simp del]

definition analyze_city ::
  "(nat \<Rightarrow> message list \<Rightarrow> completion) \<Rightarrow> ('row tool_result \<Rightarrow> string)
     \<Rightarrow> (string \<Rightarrow> 'row tool_result) \<Rightarrow> (string \<Rightarrow> 'j option) \<Rightarrow> string
     \<Rightarrow> 'j run_outcome \<times> run_state" where
  "analyze_city create py_str postgres_query json_loads user_message =
     (let max_iterations = 12
      in agent_loop max_iterations create py_str postgres_query json_loads
           \<lparr>st_messages = [Message ''user'' (Text user_message)], st_iteration = 0,
            st_calls = 0, st_dispatched = [], st_executed = [], st_slept = []\<rparr>)"

section \<open>Python's \<open>str\<close> on results with integer cells\<close>

text \<open>
  For concrete runs: \<open>str\<close> of the result dictionaries when a row is a dictionary from
  column names to natural numbers and no text contains a quote, a backslash or a control
  character. The keys come in the order in which the source builds each dictionary.
\<close>

definition py_quote :: "string \<Rightarrow> string" where
  "py_quote s = [CHR 0x27] @ s @ [CHR 0x27]"

definition py_str_list :: "string list \<Rightarrow> string" where
  "py_str_list items = ''['' @ py_join '', '' items @ '']''"

definition py_str_row :: "(string \<times> nat) list \<Rightarrow> string" where
  "py_str_row row =
     ''{'' @ py_join '', '' (map (\<lambda>(k, v). py_quote k @ '': '' @ py_str_nat v) row) @ ''}''"

fun py_str_result :: "(string \<times> nat) list tool_result \<Rightarrow> string" where
  "py_str_result (Failure e) =
     ''{'' @ py_quote ''success'' @ '': False, '' @ py_quote ''error'' @ '': '' @ py_quote e @ ''}''"
| "py_str_result (Success d cols n None) =
     ''{'' @ py_quote ''success'' @ '': True, ''
       @ py_quote ''data'' @ '': '' @ py_str_list (map py_str_row d) @ '', ''
       @ py_quote ''columns'' @ '': '' @ py_str_list (map py_quote cols) @ '', ''
       @ py_quote ''row_count'' @ '': '' @ py_str_nat n @ ''}''"
| "py_str_result (Success d cols n (Some nt)) =
     ''{'' @ py_quote ''success'' @ '': True, ''
       @ py_quote ''row_count'' @ '': '' @ py_str_nat n @ '', ''
       @ py_quote ''columns'' @ '': '' @ py_str_list (map py_quote cols) @ '', ''
       @ py_quote ''data'' @ '': '' @ py_str_list (map py_str_row d) @ '', ''
       @ py_quote ''note'' @ '': '' @ py_quote nt @ ''}''"

fun py_str_payload :: "(string \<times> nat) list payload \<Rightarrow> string" where
  "py_str_payload (Whole r) = py_str_result r"
| "py_str_payload (Summary ok n cols d nt) =
     ''{'' @ py_quote ''success'' @ '': '' @ (if ok then ''True'' else ''False'') @ '', ''
       @ py_quote ''row_count'' @ '': ''
       @ (case n of Some k \<Rightarrow> py_str_nat k | None \<Rightarrow> ''None'') @ '', ''
       @ py_quote ''columns'' @ '': ''
       @ (case cols of Some cs \<Rightarrow> py_str_list (map py_quote cs) | None \<Rightarrow> ''None'') @ '', ''
       @ py_quote ''data_sample'' @ '': '' @ py_str_list (map py_str_row d) @ '', ''
       @ py_quote ''note'' @ '': '' @ py_quote nt @ ''}''"

section \<open>Collaborators and inputs for concrete runs\<close>

text \<open>An executor that answers every statement with one row.\<close>

definition one_row_executor :: "string \<Rightarrow> (string \<times> nat) list tool_result" where
  "one_row_executor sql = Success [[(''total'', 42)]] [''total''] 1 None"

text \<open>A row of sixty integer cells, and an executor that answers with seven such rows.\<close>

definition wide_row :: "(string \<times> nat) list" where
  "wide_row = map (\<lambda>i. (''c'' @ py_str_nat i, i)) [1..<61]"

definition wide_columns :: "string list" where
  "wide_columns = map fst wide_row"

definition wide_executor :: "string \<Rightarrow> (string \<times> nat) list tool_result" where
  "wide_executor sql = Success (replicate 7 wide_row) wide_columns 7 None"

text \<open>A result of eight short rows.\<close>

definition eight_rows :: "(string \<times> nat) list tool_result" where
  "eight_rows = Success (map (\<lambda>i. [(''id'', i)]) [1..<9]) [''id''] 8 None"

text \<open>A decoder that accepts the empty JSON object only.\<close>

definition strict_decoder :: "string \<Rightarrow> nat option" where
  "strict_decoder s = (if s = ''{}'' then Some 0 else None)"

text \<open>A completion call that is rate-limited at every attempt.\<close>

definition rate_limited :: "nat \<Rightarrow> string + nat" where
  "rate_limited attempt = Inl ''Rate limit exceeded''"

text \<open>A model that asks for one database query in every turn.\<close>

definition always_query :: "nat \<Rightarrow> message list \<Rightarrow> completion" where
  "always_query n msgs =
     Response ''tool_use''
       [ToolUseBlock (''toolu_'' @ py_str_nat n) ''query_database''
          [(''sql'', ''SELECT COUNT(*) AS total FROM service19_onboarding_data LIMIT 1''),
           (''description'', ''count'')]]"

text \<open>
  Conversations of \<open>MindsDBAgent.run\<close> with thirteen messages: the user's question followed
  by six turns with one tool call each, or by four turns with two tool calls each.
\<close>

definition single_call_turn :: "nat \<Rightarrow> chat_message list" where
  "single_call_turn k =
     [AssistantToolCalls [] [ToolCall (''call_'' @ py_str_nat k) ''query_mindsdb'' ''{}''],
      ToolMessage (''call_'' @ py_str_nat k) ''query_mindsdb'' ''{}'']"

definition single_call_conversation :: "chat_message list" where
  "single_call_conversation =
     ChatMessage ''user'' ''How many records?'' # concat (map single_call_turn [1..<7])"

definition two_call_turn :: "nat \<Rightarrow> chat_message list" where
  "two_call_turn k =
     [AssistantToolCalls []
        [ToolCall (''call_'' @ py_str_nat k @ ''a'') ''query_mindsdb'' ''{}'',
         ToolCall (''call_'' @ py_str_nat k @ ''b'') ''query_mindsdb'' ''{}''],
      ToolMessage (''call_'' @ py_str_nat k @ ''a'') ''query_mindsdb'' ''{}'',
      ToolMessage (''call_'' @ py_str_nat k @ ''b'') ''query_mindsdb'' ''{}'']"

definition two_call_conversation :: "chat_message list" where
  "two_call_conversation =
     ChatMessage ''user'' ''How many records?'' # concat (map two_call_turn [1..<5])"

section \<open>Properties of the string functions\<close>

text \<open>
  The string functions on a text with non-ASCII letters, a sharp s, a multiplication and a
  division sign, and with the two non-ASCII whitespace characters around it.
\<close>

lemma py_case_examples:
  "py_lower [CHR 0xC9, CHR ''Q'', CHR 0xD7, CHR 0xDE, CHR ''1'']
     = [CHR 0xE9, CHR ''q'', CHR 0xD7, CHR 0xFE, CHR ''1'']"
  "py_upper [CHR 0xE9, CHR ''q'', CHR 0xF7, CHR 0xDF, CHR 0xFF, CHR 0xB5]
     = [CHR 0xC9, CHR ''Q'', CHR 0xF7, CHR ''S'', CHR ''S'', CHR 0xFF, CHR 0xB5]"
  "py_strip ([CHR 0xA0, CHR 0x85, CHR 0x09] @ ''drop  x'' @ [CHR 0x1C, CHR 0xA0])
     = ''drop  x''"
  "is_write_operation ([CHR 0xA0] @ ''drop table users'')"
  "limit_match (''limit'' @ [CHR 0xA0] @ ''500'') = Some 500"
  by code_simp+

section \<open>Properties of the query guards\<close>

lemma write_keyword_is_write_operation:
  "keyword \<in> set write_keywords \<Longrightarrow> prefix keyword (py_upper (py_strip sql))
     \<Longrightarrow> is_write_operation sql"
  unfolding is_write_operation_def Let_def list_ex_iff by blast

lemma write_operation_nonempty: "is_write_operation sql \<Longrightarrow> sql \<noteq> []"
  by (auto simp: is_write_operation_def py_strip_def py_upper_def write_keywords_def)

text \<open>
  C7. A statement whose text, stripped and upper-cased, starts with one of the keywords
  INSERT, UPDATE, DELETE, ALTER, CREATE, DROP, TRUNCATE is refused by \<open>MindsDBTool.query\<close>
  when \<open>allow_write\<close> is false: the result is the failure with the write-not-allowed message
  and nothing is sent to the executor.
\<close>

theorem write_statement_rejected:
  assumes "keyword \<in> set write_keywords"
    and "prefix keyword (py_upper (py_strip sql))"
  shows "query_guard sql False = Some WriteNotAllowed \<and>
         query executor sql False = (Failure (error_text WriteNotAllowed), [])"
proof -
  have "is_write_operation sql"
    using assms by (rule write_keyword_is_write_operation)
  then have "query_guard sql False = Some WriteNotAllowed"
    by (simp add: query_guard_def)
  then show ?thesis
    by (simp add: query_def)
qed

theorem write_statement_rejected_witness:
  "''DROP'' \<in> set write_keywords \<and>
   prefix ''DROP'' (py_upper (py_strip ''  drop table users;'')) \<and>
   query_guard ''  drop table users;'' False = Some WriteNotAllowed \<and>
   query one_row_executor ''  drop table users;'' False
     = (Failure (error_text WriteNotAllowed), [])"
proof -
  have k: "''DROP'' \<in> set write_keywords"
    by (simp add: write_keywords_def)
  have p: "prefix ''DROP'' (py_upper (py_strip ''  drop table users;''))"
    by code_simp
  from write_statement_rejected [OF k p, of one_row_executor] k p
  show ?thesis by blast
qed

text \<open>
  C2, as claimed, fails for \<open>MindsDBTool.query\<close>: the statement of \<open>count_records\<close> has no
  \<open>limit\<close> in it, mentions no large column, and is sent to the executor.
\<close>

theorem missing_limit_counterexample:
  "\<not> py_in ''limit'' (py_lower count_records_sql) \<and>
   query one_row_executor count_records_sql False
     = (one_row_executor count_records_sql, [count_records_sql])"
  by code_simp

text \<open>
  C2, amended. For a statement whose lower-cased text does not contain \<open>limit\<close>: the
  analyzers' \<open>query_database\<close> tool and the \<open>custom_query\<close> operation of the direct PostgreSQL
  tool refuse it without calling the executor, whatever columns it touches;
  \<open>MindsDBTool.query\<close>, once past the write check, refuses it for the missing limit only when
  the text mentions \<open>raw_data\<close> or \<open>error_details\<close>, and otherwise refuses it only for
  \<open>select *\<close> and else sends it to the executor.
\<close>

theorem missing_limit_rejections:
  assumes "\<not> py_in ''limit'' (py_lower sql)"
    and "map_of tool_input ''sql'' = Some sql"
    and "allow_write \<or> \<not> is_write_operation sql"
  shows "execute_tool py_str postgres_query ''query_database'' tool_input
           = (Failure ''LIMIT clause required in all queries'', []) \<and>
         (\<exists>e. postgres_direct_custom_query postgres_query (Some sql) = (Failure e, [])) \<and>
         query executor sql allow_write
           = (if references_large_column (py_lower sql)
              then (Failure (error_text MissingLimitOnLargeColumn), [])
              else if py_in ''select *'' (py_lower sql)
              then (Failure (error_text WildcardProjection), [])
              else (executor sql, [sql]))"
proof -
  have a: "execute_tool py_str postgres_query ''query_database'' tool_input
           = (Failure ''LIMIT clause required in all queries'', [])"
    using assms(1,2) by (simp add: execute_tool_def)
  have b: "\<exists>e. postgres_direct_custom_query postgres_query (Some sql) = (Failure e, [])"
    using assms(1) by (simp add: postgres_direct_custom_query_def)
  have c: "query_guard sql allow_write
           = (if references_large_column (py_lower sql) then Some MissingLimitOnLargeColumn
              else if py_in ''select *'' (py_lower sql) then Some WildcardProjection else None)"
    using assms(1,3) by (auto simp: query_guard_def Let_def)
  show ?thesis
    using a b by (simp add: query_def c)
qed

theorem missing_limit_rejections_witness:
  "\<not> py_in ''limit'' (py_lower ''SELECT raw_data FROM service19_onboarding_data'') \<and>
   execute_tool py_str_result one_row_executor ''query_database''
       [(''sql'', ''SELECT raw_data FROM service19_onboarding_data'')]
     = (Failure ''LIMIT clause required in all queries'', []) \<and>
   query one_row_executor
       ''SELECT raw_data FROM service19_onboarding_data'' False
     = (Failure (error_text MissingLimitOnLargeColumn), [])"
proof -
  let ?sql = "''SELECT raw_data FROM service19_onboarding_data''"
  have h1: "\<not> py_in ''limit'' (py_lower ?sql)"
    by code_simp
  have h2: "map_of [(''sql'', ?sql)] ''sql'' = Some ?sql"
    by simp
  have h3: "False \<or> \<not> is_write_operation ?sql"
    by code_simp
  have large: "references_large_column (py_lower ?sql)"
    by code_simp
  from missing_limit_rejections [OF h1 h2 h3, of py_str_result
      one_row_executor
      one_row_executor]
    h1 large
  show ?thesis by simp
qed

text \<open>
  C8, as claimed, fails: a \<open>select *\<close> over a large column without a limit is refused for
  the missing limit, not for the wildcard.
\<close>

theorem wildcard_order_counterexample:
  "py_in ''select *''
     (py_lower ''SELECT * FROM service19_onboarding_data WHERE raw_data IS NOT NULL'') \<and>
   query_guard ''SELECT * FROM service19_onboarding_data WHERE raw_data IS NOT NULL'' False
     = Some MissingLimitOnLargeColumn"
  by code_simp

text \<open>
  C8, amended. \<open>MindsDBTool.query\<close> checks in the order write check, large column without a
  limit, limit above 10 on a large column, wildcard, and the first check that fires decides.
  For a text that contains \<open>select *\<close> and mentions \<open>raw_data\<close> or \<open>error_details\<close> the
  reason is therefore: the write operation, if the write check fires; else the missing limit
  on a large column, if the text has no \<open>limit\<close> in it; else the limit that is too high, if
  the first \<open>limit\<close> followed by whitespace and digits names a number above 10; else the
  wildcard. Without \<open>limit\<close> in the text the reason is never the wildcard.
\<close>

theorem large_column_check_precedes_wildcard:
  assumes "py_in ''select *'' (py_lower sql)"
    and "references_large_column (py_lower sql)"
  shows "query_guard sql allow_write
           = (if is_write_operation sql \<and> \<not> allow_write then Some WriteNotAllowed
              else if \<not> py_in ''limit'' (py_lower sql) then Some MissingLimitOnLargeColumn
              else (case limit_match (py_lower sql) of
                      Some v \<Rightarrow> if v > 10 then Some (LimitTooHigh v)
                                else Some WildcardProjection
                    | None \<Rightarrow> Some WildcardProjection))"
  using assms by (simp add: query_guard_def Let_def split: option.splits)

theorem large_column_check_precedes_wildcard_witness:
  "py_in ''select *'' (py_lower ''Select * from t where error_details is null'') \<and>
   references_large_column (py_lower ''Select * from t where error_details is null'') \<and>
   query_guard ''Select * from t where error_details is null'' True
     = Some MissingLimitOnLargeColumn \<and>
   py_in ''select *'' (py_lower ''SELECT *, raw_data FROM t LIMIT 50'') \<and>
   references_large_column (py_lower ''SELECT *, raw_data FROM t LIMIT 50'') \<and>
   query_guard ''SELECT *, raw_data FROM t LIMIT 50'' False = Some (LimitTooHigh 50) \<and>
   py_in ''select *'' (py_lower ''SELECT *, raw_data FROM t LIMIT 5'') \<and>
   references_large_column (py_lower ''SELECT *, raw_data FROM t LIMIT 5'') \<and>
   query_guard ''SELECT *, raw_data FROM t LIMIT 5'' False = Some WildcardProjection"
proof -
  let ?a = "''Select * from t where error_details is null''"
  let ?b = "''SELECT *, raw_data FROM t LIMIT 50''"
  let ?c = "''SELECT *, raw_data FROM t LIMIT 5''"
  have a1: "py_in ''select *'' (py_lower ?a)" by code_simp
  have a2: "references_large_column (py_lower ?a)" by code_simp
  have a3: "\<not> py_in ''limit'' (py_lower ?a)" by code_simp
  have b1: "py_in ''select *'' (py_lower ?b)" by code_simp
  have b2: "references_large_column (py_lower ?b)" by code_simp
  have b3: "py_in ''limit'' (py_lower ?b)" by code_simp
  have b4: "limit_match (py_lower ?b) = Some 50" by code_simp
  have b5: "\<not> is_write_operation ?b" by code_simp
  have c1: "py_in ''select *'' (py_lower ?c)" by code_simp
  have c2: "references_large_column (py_lower ?c)" by code_simp
  have c3: "py_in ''limit'' (py_lower ?c)" by code_simp
  have c4: "limit_match (py_lower ?c) = Some 5" by code_simp
  have c5: "\<not> is_write_operation ?c" by code_simp
  have a: "query_guard ?a True = Some MissingLimitOnLargeColumn"
    using large_column_check_precedes_wildcard [OF a1 a2, of True] a3 by simp
  have b: "query_guard ?b False = Some (LimitTooHigh 50)"
    using large_column_check_precedes_wildcard [OF b1 b2, of False] b3 b4 b5 by simp
  have c: "query_guard ?c False = Some WildcardProjection"
    using large_column_check_precedes_wildcard [OF c1 c2, of False] c3 c4 c5 by simp
  show ?thesis
    using a1 a2 a b1 b2 b c1 c2 c by blast
qed

text \<open>
  C9, as claimed, fails in its last part: an \<open>ALTER TABLE\<close> that names \<open>raw_data\<close>, submitted
  with the operation \<open>alter_table\<close>, passes the write check but is refused by the next one and
  does not reach the executor.
\<close>

theorem alter_table_counterexample:
  "is_write_operation ''ALTER TABLE service19_onboarding_data DROP COLUMN raw_data'' \<and>
   execute_mindsdb_tool one_row_executor alter_table
       (Some ''ALTER TABLE service19_onboarding_data DROP COLUMN raw_data'') False
     = (Failure (error_text MissingLimitOnLargeColumn), [])"
  by code_simp

text \<open>
  C9, amended. The operation \<open>alter_table\<close> calls \<open>query\<close> with \<open>allow_write=True\<close> whatever the
  caller passed: a statement with a leading write keyword is never refused by the write
  check, and it reaches the executor unless one of the later checks refuses it; it does reach
  the executor when its text mentions neither a large column nor \<open>select *\<close>.
\<close>

theorem alter_table_forces_allow_write:
  assumes "is_write_operation sql"
  shows "query_guard sql True \<noteq> Some WriteNotAllowed \<and>
         execute_mindsdb_tool executor alter_table (Some sql) allow_write
           = (case query_guard sql True of
                Some r \<Rightarrow> (Failure (error_text r), [])
              | None \<Rightarrow> (executor sql, [sql])) \<and>
         (\<not> references_large_column (py_lower sql) \<and> \<not> py_in ''select *'' (py_lower sql)
            \<longrightarrow> execute_mindsdb_tool executor alter_table (Some sql) allow_write
                  = (executor sql, [sql]))"
proof -
  have ne: "sql \<noteq> []"
    using assms by (rule write_operation_nonempty)
  have g: "query_guard sql True \<noteq> Some WriteNotAllowed"
    by (auto simp: query_guard_def Let_def split: option.splits if_splits)
  have e: "execute_mindsdb_tool executor alter_table (Some sql) allow_write
             = query executor sql True"
    using ne by (simp add: execute_mindsdb_tool_def)
  have p: "\<not> references_large_column (py_lower sql) \<and> \<not> py_in ''select *'' (py_lower sql)
             \<longrightarrow> query_guard sql True = None"
    by (simp add: query_guard_def)
  show ?thesis
    using g e p by (auto simp: query_def)
qed

theorem alter_table_forces_allow_write_witness:
  "is_write_operation ''ALTER TABLE t ADD COLUMN metadata jsonb'' \<and>
   query_guard ''ALTER TABLE t ADD COLUMN metadata jsonb'' False = Some WriteNotAllowed \<and>
   execute_mindsdb_tool one_row_executor alter_table
       (Some ''ALTER TABLE t ADD COLUMN metadata jsonb'') False
     = (one_row_executor ''ALTER TABLE t ADD COLUMN metadata jsonb'',
        [''ALTER TABLE t ADD COLUMN metadata jsonb''])"
proof -
  let ?sql = "''ALTER TABLE t ADD COLUMN metadata jsonb''"
  have w: "is_write_operation ?sql" by code_simp
  have r: "query_guard ?sql False = Some WriteNotAllowed" by code_simp
  have s: "\<not> references_large_column (py_lower ?sql) \<and> \<not> py_in ''select *'' (py_lower ?sql)"
    by code_simp
  from alter_table_forces_allow_write [OF w, of one_row_executor False]
    w r s
  show ?thesis by blast
qed

text \<open>
  C10. The row-limit guard of the analyzers' \<open>query_database\<close> tool, and of the
  \<open>custom_query\<close> operation of the direct PostgreSQL tool, is a substring test on the
  lower-cased text: the statement is sent to the executor exactly when \<open>limit\<close> occurs
  somewhere in it. The witness is a statement without a LIMIT clause whose only \<open>limit\<close> is
  part of a column name; it is executed.
\<close>

theorem limit_guard_is_substring_test:
  assumes "map_of tool_input ''sql'' = Some sql"
  shows "execute_tool py_str postgres_query ''query_database'' tool_input
           = (if py_in ''limit'' (py_lower sql)
              then (shape_result py_str (postgres_query sql), [sql])
              else (Failure ''LIMIT clause required in all queries'', [])) \<and>
         (snd (execute_tool py_str postgres_query ''query_database'' tool_input) = [sql])
           = py_in ''limit'' (py_lower sql) \<and>
         (snd (postgres_direct_custom_query postgres_query (Some sql)) = [sql])
           = py_in ''limit'' (py_lower sql)"
proof -
  have e: "sql = [] \<Longrightarrow> \<not> py_in ''limit'' (py_lower sql)"
    by (simp add: py_lower_def)
  show ?thesis
    using assms e by (auto simp: execute_tool_def postgres_direct_custom_query_def)
qed

theorem limit_guard_is_substring_test_witness:
  "py_in ''limit'' (py_lower ''SELECT speed_limit FROM roads'') \<and>
   limit_match (py_lower ''SELECT speed_limit FROM roads'') = None \<and>
   snd (execute_tool py_str_result one_row_executor ''query_database''
          [(''sql'', ''SELECT speed_limit FROM roads''), (''description'', ''speeds'')])
     = [''SELECT speed_limit FROM roads''] \<and>
   snd (postgres_direct_custom_query one_row_executor
          (Some ''SELECT speed_limit FROM roads''))
     = [''SELECT speed_limit FROM roads'']"
proof -
  let ?sql = "''SELECT speed_limit FROM roads''"
  have h: "map_of [(''sql'', ?sql), (''description'', ''speeds'')] ''sql'' = Some ?sql"
    by simp
  have l: "py_in ''limit'' (py_lower ?sql)" by code_simp
  have m: "limit_match (py_lower ?sql) = None" by code_simp
  from limit_guard_is_substring_test [OF h, of py_str_result one_row_executor]
    limit_guard_is_substring_test [OF h, of py_str_result one_row_executor]
    l m
  show ?thesis by simp
qed

section \<open>Properties of the response parser\<close>

text \<open>
  C6, as claimed, fails in one field: the fallback lists the source \<open>unknown\<close>, it is not
  empty.
\<close>

theorem fallback_sources_counterexample:
  "json_candidate ''The data is inconclusive.'' = ''The data is inconclusive.'' \<and>
   strict_decoder ''The data is inconclusive.'' = None \<and>
   data_sources_used (parse_response strict_decoder ''The data is inconclusive.'')
     = [''unknown'']"
  by code_simp

text \<open>
  C6, amended. When \<open>json.loads\<close> raises \<open>JSONDecodeError\<close> on the text extracted from the
  final response, the insight is the fallback: the summary is the first 200 characters of the
  response, the detailed analysis is the response itself, the sources used are the one-element
  list \<open>["unknown"]\<close>, the confidence is 0.5 and the recommendations are empty.
\<close>

theorem fallback_answer:
  assumes "json_loads (json_candidate final_response) = None"
  shows "parse_response json_loads final_response
           = Fallback (take 200 final_response) final_response [''unknown''] (1 / 2) []"
  using assms by (simp add: parse_response_def)

theorem fallback_answer_witness:
  "parse_response strict_decoder ''Result: {unfinished''
     = Fallback ''Result: {unfinished'' ''Result: {unfinished'' [''unknown''] (1 / 2) []"
proof -
  have h: "strict_decoder (json_candidate ''Result: {unfinished'') = None"
    by code_simp
  from fallback_answer [of strict_decoder, OF h]
  show ?thesis by simp
qed

section \<open>Properties of the retry loop\<close>

text \<open>
  C4. When every attempt fails with a rate-limit error, the loop calls the completion five
  times and sleeps four times, for 3, 6, 12 and 24 seconds; the fifth failure is raised at
  once, and the delay of 48 seconds that the comment in the source lists is never slept.
\<close>

theorem retry_sleeps_four_times:
  "is_rate_limit ''Rate limit exceeded'' \<and>
   call_with_retry rate_limited = (Inl ''Rate limit exceeded'', [3, 6, 12, 24], 5)"
  by code_simp

section \<open>Properties of the result truncation\<close>

text \<open>
  C5, as claimed, fails for \<open>MindsDBAgent.run\<close>: a successful result of eight short rows,
  150 characters long as a string, is handed to the model whole, with all eight rows.
\<close>

theorem agent_result_counterexample:
  "direct_result_payload py_str_payload eight_rows = Whole eight_rows \<and>
   length (res_data eight_rows) = 8 \<and>
   length (py_str_payload (Whole eight_rows)) = 150"
  by code_simp

text \<open>
  C5, amended. For a successful result with a positive row count: the analyzers'
  \<open>query_database\<close> tool hands back the first 5 rows with a note that names 5 and the original
  row count, or, when the string of that 5-row result is longer than 3000 characters, the
  first 2 rows with a note that names 2 and the original row count; \<open>MindsDBAgent.run\<close> hands
  back the result of \<open>query_postgres_direct\<close> unchanged when its string is at most 10000
  characters long, and else a summary with the first 3 rows and a note that names 3 and the
  original row count. The row count handed back is always the original one.
\<close>

theorem result_shaping:
  assumes "0 < n"
  shows "shape_result py_str (Success d cols n nt)
           = (if length (py_str (Success (take 5 d) cols n (Some (note_first_five n)))) > 3000
              then Success (take 2 d) cols n (Some (note_two_of n))
              else Success (take 5 d) cols n (Some (note_first_five n))) \<and>
         res_row_count (shape_result py_str (Success d cols n nt)) = n \<and>
         length (res_data (shape_result py_str (Success d cols n nt))) \<le> 5 \<and>
         direct_result_payload py_str' (Success d cols n nt)
           = (if length (py_str' (Whole (Success d cols n nt))) > 10000
              then Summary True (Some n) (Some cols) (take 3 d) (note_showed_three n)
              else Whole (Success d cols n nt))"
proof -
  have a: "shape_result py_str (Success d cols n nt)
           = (if length (py_str (Success (take 5 d) cols n (Some (note_first_five n)))) > 3000
              then Success (take 2 d) cols n (Some (note_two_of n))
              else Success (take 5 d) cols n (Some (note_first_five n)))"
    using assms by (simp add: shape_result_def Let_def min_def)
  have b: "res_row_count (shape_result py_str (Success d cols n nt)) = n"
    by (simp add: a)
  have c: "length (res_data (shape_result py_str (Success d cols n nt))) \<le> 5"
    by (auto simp: a)
  have e: "direct_result_payload py_str' (Success d cols n nt)
           = (if length (py_str' (Whole (Success d cols n nt))) > 10000
              then Summary True (Some n) (Some cols) (take 3 d) (note_showed_three n)
              else Whole (Success d cols n nt))"
    by (simp add: direct_result_payload_def Let_def get_success_def get_row_count_def
        get_columns_def get_data_def)
  show ?thesis
    using a b c e by blast
qed

theorem result_shaping_witness:
  "shape_result py_str_result (wide_executor ''SELECT * FROM t LIMIT 7'')
     = Success (replicate 2 wide_row) wide_columns 7 (Some (note_two_of 7)) \<and>
   direct_result_payload py_str_payload (wide_executor ''SELECT * FROM t LIMIT 7'')
     = Whole (wide_executor ''SELECT * FROM t LIMIT 7'')"
proof -
  have pos: "(0::nat) < 7" by simp
  have big: "length (py_str_result (Success (take 5 (replicate 7 wide_row)) wide_columns 7
                (Some (note_first_five 7)))) > 3000"
    by code_simp
  have small: "\<not> length (py_str_payload (Whole (Success (replicate 7 wide_row) wide_columns 7 None)))
                 > 10000"
    by code_simp
  from result_shaping [OF pos, of py_str_result "replicate 7 wide_row" wide_columns None
      py_str_payload] big small
  show ?thesis
    by (simp add: wide_executor_def)
qed

section \<open>Properties of the pruning\<close>

text \<open>
  C3. The pruning of \<open>MindsDBAgent.run\<close> keeps the pairs together when every turn carries
  one tool call. When the turns carry two tool calls each, the slice of the last ten
  messages of a conversation of thirteen begins with the second tool message of the first
  turn; its role is \<open>tool\<close>, not \<open>user\<close>, so the slice is kept as it is, neither shortened nor
  extended backward, and the pruned conversation holds a tool message whose assistant message
  is gone.
\<close>

theorem pruning_splits_pair:
  "pairs_together two_call_conversation \<and>
   length two_call_conversation = 13 \<and>
   prune_messages two_call_conversation
     = ChatMessage ''user'' ''How many records?'' # py_last 10 two_call_conversation \<and>
   hd (py_last 10 two_call_conversation) = ToolMessage ''call_1b'' ''query_mindsdb'' ''{}'' \<and>
   \<not> pairs_together (prune_messages two_call_conversation) \<and>
   pairs_together single_call_conversation \<and>
   pairs_together (prune_messages single_call_conversation)"
  by code_simp

section \<open>Properties of the analysis loop\<close>

lemma turn_counters:
  "turn create py_str postgres_query json_loads st = Continue st'
     \<Longrightarrow> st_iteration st' = Suc (st_iteration st) \<and> st_calls st' = Suc (st_calls st)"
  "turn create py_str postgres_query json_loads st = Return out st'
     \<Longrightarrow> st_iteration st' = Suc (st_iteration st) \<and> st_calls st' = Suc (st_calls st)
         \<and> out \<noteq> MaxIterationsReached"
  by (auto simp: turn_def Let_def split: completion.splits if_splits prod.splits)

lemma agent_loop_counters:
  "agent_loop max_iterations create py_str postgres_query json_loads st = (out, st')
     \<Longrightarrow> st_iteration st \<le> max_iterations \<Longrightarrow> st_calls st = st_iteration st
     \<Longrightarrow> st_calls st' = st_iteration st' \<and> st_iteration st' \<le> max_iterations
         \<and> (out = MaxIterationsReached \<longrightarrow> st_iteration st' = max_iterations)"
proof (induction max_iterations create py_str postgres_query json_loads st
    rule: agent_loop.induct)
  case (1 max_iterations create py_str postgres_query json_loads st)
  show ?case
  proof (cases "st_iteration st < max_iterations")
    case False
    with "1.prems" show ?thesis
      by (simp add: agent_loop.simps)
  next
    case True
    show ?thesis
    proof (cases "turn create py_str postgres_query json_loads st")
      case (Continue st1)
      from turn_counters(1) [OF Continue] "1.prems" True
      have c: "st_iteration st1 \<le> max_iterations" "st_calls st1 = st_iteration st1"
        by simp_all
      from "1.prems"(1) True Continue
      have "agent_loop max_iterations create py_str postgres_query json_loads st1 = (out, st')"
        by (simp add: agent_loop.simps)
      from "1.IH" [OF True Continue this c] show ?thesis .
    next
      case (Return out1 st1)
      from "1.prems"(1) True Return have e: "out = out1" "st' = st1"
        by (simp_all add: agent_loop.simps)
      from turn_counters(2) [OF Return] "1.prems" True e show ?thesis
        by simp
    qed
  qed
qed

lemma execute_tools_names:
  "fst (snd (execute_tools py_str postgres_query bs)) = tool_use_names bs"
proof (induction bs rule: tool_use_names.induct)
  case 1
  show ?case by simp
next
  case (2 t bs)
  then show ?case by simp
next
  case (3 i n inp bs)
  then show ?case
    by (cases "execute_tool py_str postgres_query n inp";
        cases "execute_tools py_str postgres_query bs") auto
qed

lemma turn_dispatches_all:
  assumes "create (st_calls st)
             (if length (st_messages st) > 6 then py_last 6 (st_messages st) else st_messages st)
           = Response ''tool_use'' content"
  shows "\<exists>st'. turn create py_str postgres_query json_loads st = Continue st' \<and>
           st_dispatched st' = st_dispatched st @ tool_use_names content"
  using assms execute_tools_names [of py_str postgres_query content]
  by (auto simp: turn_def Let_def split: prod.splits)

text \<open>The run of \<open>analyze_city\<close> with a model that asks for one query in every turn.\<close>

lemma always_query_run:
  "(let r = analyze_city always_query py_str_result one_row_executor strict_decoder
              ''Analyze Bristol, GB''
    in fst r = MaxIterationsReached \<and> st_calls (snd r) = 12 \<and>
       st_dispatched (snd r) = replicate 12 ''query_database'' \<and>
       length (st_executed (snd r)) = 12)"
  by code_simp

text \<open>
  C1, as claimed, fails in its query budget: with a model that asks for one query in every
  turn, \<open>analyze_city\<close> dispatches twelve \<open>query_database\<close> requests and sends twelve
  statements to the database, the ninth to the twelfth included, before it ends with the
  outcome for exhausted iterations.
\<close>

theorem query_budget_counterexample:
  "fst (analyze_city always_query py_str_result one_row_executor strict_decoder
          ''Analyze Bristol, GB'') = MaxIterationsReached \<and>
   st_dispatched (snd (analyze_city always_query py_str_result one_row_executor strict_decoder
          ''Analyze Bristol, GB'')) = replicate 12 ''query_database'' \<and>
   length (st_executed (snd (analyze_city always_query py_str_result one_row_executor
          strict_decoder ''Analyze Bristol, GB''))) = 12"
  using always_query_run unfolding Let_def by blast

text \<open>
  C1, amended. Every call of \<open>analyze_city\<close> makes at most 12 completion calls (the value of
  \<open>max_iterations\<close>), and when it ends with the outcome for exhausted iterations it has made
  exactly 12 and makes no further one. There is no counter of queries: a turn whose
  completion asks for tools dispatches every tool request of the response.
\<close>

theorem completion_calls_bounded:
  "st_calls (snd (analyze_city create py_str postgres_query json_loads user_message)) \<le> 12 \<and>
   (fst (analyze_city create py_str postgres_query json_loads user_message)
      = MaxIterationsReached
    \<longrightarrow> st_calls (snd (analyze_city create py_str postgres_query json_loads user_message))
          = 12) \<and>
   (create (st_calls st)
      (if length (st_messages st) > 6 then py_last 6 (st_messages st) else st_messages st)
      = Response ''tool_use'' content
    \<longrightarrow> (\<exists>st'. turn create py_str postgres_query json_loads st = Continue st' \<and>
           st_dispatched st' = st_dispatched st @ tool_use_names content))"
proof -
  obtain out st' where r:
    "analyze_city create py_str postgres_query json_loads user_message = (out, st')"
    by (cases "analyze_city create py_str postgres_query json_loads user_message")
  then have "agent_loop 12 create py_str postgres_query json_loads
               \<lparr>st_messages = [Message ''user'' (Text user_message)], st_iteration = 0,
                st_calls = 0, st_dispatched = [], st_executed = [], st_slept = []\<rparr> = (out, st')"
    by (simp add: analyze_city_def)
  from agent_loop_counters [OF this]
  have "st_calls st' = st_iteration st' \<and> st_iteration st' \<le> 12
          \<and> (out = MaxIterationsReached \<longrightarrow> st_iteration st' = 12)"
    by simp
  with r turn_dispatches_all [of create st content py_str postgres_query json_loads]
  show ?thesis by auto
qed

theorem completion_calls_bounded_witness:
  "fst (analyze_city always_query py_str_result one_row_executor strict_decoder
      ''Analyze Bristol, GB'') = MaxIterationsReached \<and>
   st_calls (snd (analyze_city always_query py_str_result one_row_executor strict_decoder
      ''Analyze Bristol, GB'')) = 12 \<and>
   always_query 0 [Message ''user'' (Text ''Analyze Bristol, GB'')]
     = Response ''tool_use''
         [ToolUseBlock ''toolu_0'' ''query_database''
            [(''sql'', ''SELECT COUNT(*) AS total FROM service19_onboarding_data LIMIT 1''),
             (''description'', ''count'')]] \<and>
   (\<exists>st'. turn always_query py_str_result one_row_executor strict_decoder
             \<lparr>st_messages = [Message ''user'' (Text ''Analyze Bristol, GB'')], st_iteration = 0,
              st_calls = 0, st_dispatched = [], st_executed = [], st_slept = []\<rparr> = Continue st' \<and>
          st_dispatched st' = [''query_database''])"
proof -
  let ?st = "\<lparr>st_messages = [Message ''user'' (Text ''Analyze Bristol, GB'')], st_iteration = 0,
              st_calls = 0, st_dispatched = [], st_executed = [], st_slept = []\<rparr>"
  let ?content = "[ToolUseBlock ''toolu_0'' ''query_database''
            [(''sql'', ''SELECT COUNT(*) AS total FROM service19_onboarding_data LIMIT 1''),
             (''description'', ''count'')]]"
  have m: "fst (analyze_city always_query py_str_result one_row_executor strict_decoder
      ''Analyze Bristol, GB'') = MaxIterationsReached"
    using always_query_run unfolding Let_def by blast
  have q: "always_query 0 [Message ''user'' (Text ''Analyze Bristol, GB'')]
             = Response ''tool_use'' ?content"
    by code_simp
  have h: "always_query (st_calls ?st)
             (if length (st_messages ?st) > 6 then py_last 6 (st_messages ?st)
              else st_messages ?st) = Response ''tool_use'' ?content"
    using q by simp
  from completion_calls_bounded [of always_query py_str_result one_row_executor strict_decoder
      "''Analyze Bristol, GB''" ?st ?content] m q h
  show ?thesis by simp
qed

end
